theory Spec2Isabelle
  imports Main
begin

section \<open>JavaScript strings\<close>

text \<open>
  A JavaScript string is modelled as a \<^typ>\<open>string\<close>: one \<^typ>\<open>char\<close> per code unit, for
  code units below 256 (ASCII and the Latin-1 block). The functions below are the string
  built-ins that the CDP client calls, restricted to such strings.
\<close>

definition isWhiteSpace :: "char \<Rightarrow> bool" where
  \<comment> \<open>what \<open>trim\<close> strips and \<open>\\s\<close> matches: TAB, LF, VT, FF, CR, SP, NBSP\<close>
  "isWhiteSpace c =
     (c = CHR 0x09 \<or> c = CHR 0x0A \<or> c = CHR 0x0B \<or> c = CHR 0x0C \<or> c = CHR 0x0D
      \<or> c = CHR 0x20 \<or> c = CHR 0xA0)"

definition isLineTerminator :: "char \<Rightarrow> bool" where
  \<comment> \<open>what \<open>.\<close> in a regular expression does not match\<close>
  "isLineTerminator c = (c = CHR 0x0A \<or> c = CHR 0x0D)"

definition isDigit :: "char \<Rightarrow> bool" where
  \<comment> \<open>\<open>\\d\<close>\<close>
  "isDigit c = (c \<in> set ''0123456789'')"

definition trim :: "string \<Rightarrow> string" where
  "trim s = rev (dropWhile isWhiteSpace (rev (dropWhile isWhiteSpace s)))"

definition lowerChar :: "char \<Rightarrow> char" where
  \<comment> \<open>lower case of one code unit: A-Z and the upper-case letters of Latin-1\<close>
  "lowerChar c =
     (case map_of (zip ''ABCDEFGHIJKLMNOPQRSTUVWXYZ'' ''abcdefghijklmnopqrstuvwxyz'') c of
        Some d \<Rightarrow> d
      | None \<Rightarrow>
          (let n = (of_char c :: nat)
           in if 192 \<le> n \<and> n \<le> 222 \<and> n \<noteq> 215 then char_of (n + 32) else c))"

definition toLowerCase :: "string \<Rightarrow> string" where
  \<comment> \<open>\<open>String.prototype.toLowerCase\<close>\<close>
  "toLowerCase s = map lowerChar s"

definition canonChar :: "char \<Rightarrow> char" where
  \<comment> \<open>case folding of the \<open>i\<close> flag (without \<open>u\<close>): a code unit of 128 or more never
      folds onto an ASCII letter, so against the ASCII patterns used here only a-z fold\<close>
  "canonChar c =
     (case map_of (zip ''abcdefghijklmnopqrstuvwxyz'' ''ABCDEFGHIJKLMNOPQRSTUVWXYZ'') c of
        Some d \<Rightarrow> d
      | None \<Rightarrow> c)"

definition canonicalize :: "string \<Rightarrow> string" where
  "canonicalize s = map canonChar s"

fun startsWith :: "string \<Rightarrow> string \<Rightarrow> bool" where
  "startsWith s [] = True"
| "startsWith [] (p # ps) = False"
| "startsWith (c # cs) (p # ps) = (c = p \<and> startsWith cs ps)"

fun includesStr :: "string \<Rightarrow> string \<Rightarrow> bool" where
  \<comment> \<open>\<open>s.includes(p)\<close>, also \<open>s.indexOf(p) >= 0\<close>\<close>
  "includesStr [] p = (p = [])"
| "includesStr (c # cs) p = (startsWith (c # cs) p \<or> includesStr cs p)"

fun indexOf :: "string \<Rightarrow> string \<Rightarrow> nat option" where
  \<comment> \<open>\<open>s.indexOf(p)\<close>; \<open>None\<close> is the result -1\<close>
  "indexOf [] p = (if p = [] then Some 0 else None)"
| "indexOf (c # cs) p =
     (if startsWith (c # cs) p then Some 0 else map_option Suc (indexOf cs p))"

fun splitOn :: "char \<Rightarrow> string \<Rightarrow> string list" where
  \<comment> \<open>\<open>s.split(d)\<close> for a one-character separator \<open>d\<close>\<close>
  "splitOn d [] = [[]]"
| "splitOn d (c # cs) =
     (if c = d then [] # splitOn d cs
      else (case splitOn d cs of [] \<Rightarrow> [[c]] | p # ps \<Rightarrow> (c # p) # ps))"

fun splitRuns :: "(char \<Rightarrow> bool) \<Rightarrow> string \<Rightarrow> string list" where
  \<comment> \<open>\<open>s.split(/[...]+/)\<close>: the separator is a maximal run of characters of the class\<close>
  "splitRuns sep [] = [[]]"
| "splitRuns sep (c # cs) =
     (if sep c then (case cs of [] \<Rightarrow> [[], []]
                      | d # ds \<Rightarrow> if sep d then splitRuns sep cs else [] # splitRuns sep cs)
      else (case splitRuns sep cs of [] \<Rightarrow> [[c]] | p # ps \<Rightarrow> (c # p) # ps))"

fun join :: "string \<Rightarrow> string list \<Rightarrow> string" where
  \<comment> \<open>\<open>xs.join(d)\<close>\<close>
  "join d [] = []"
| "join d [x] = x"
| "join d (x # y # ys) = x @ d @ join d (y # ys)"

section \<open>The text classifier of getChatMessages\<close>

text \<open>
  The entries of the blacklist, in the order of the source. Each constructor is one shape
  of regular expression that occurs in it.
\<close>

datatype pattern =
    StartsWithAny "string list"   \<comment> \<open>\<open>/^(a|b|...)/i\<close>\<close>
  | IsAny "string list"           \<comment> \<open>\<open>/^(a|b|...)$/i\<close>\<close>
  | ClockTime                     \<comment> \<open>\<open>/^\\d+:\\d+/\<close>\<close>
  | Contains string               \<comment> \<open>\<open>/literal/i\<close>\<close>
  | ContainsThen string string    \<comment> \<open>\<open>/first.*second/i\<close>\<close>

definition blacklist :: "pattern list" where
  "blacklist =
     [StartsWithAny [''gemini'', ''claude'', ''gpt'', ''model'', ''opus'', ''sonnet'', ''flash''],
      StartsWithAny [''pro'', ''low'', ''high'', ''medium'', ''thinking''],
      StartsWithAny [''submit'', ''cancel'', ''dismiss'', ''retry''],
      StartsWithAny [''planning'', ''execution'', ''verification''],
      IsAny [''agent'', ''assistant'', ''user''],
      ClockTime,
      Contains ''terminated due to error'',
      Contains ''troubleshooting guide'',
      Contains ''can plan before executing'',
      ContainsThen ''deep research'' ''complex tasks'',
      Contains ''conversation mode'',
      Contains ''fast agent'',
      Contains ''(thinking)'',
      Contains ''ask anything'',
      Contains ''add context'',
      Contains ''workflows'',
      Contains ''mentions'']"

fun containsThen :: "string \<Rightarrow> string \<Rightarrow> string \<Rightarrow> bool" where
  \<comment> \<open>some occurrence of \<open>a\<close> is followed, before the next line terminator, by \<open>b\<close>\<close>
  "containsThen [] a b = (a = [] \<and> b = [])"
| "containsThen (c # cs) a b =
     ((startsWith (c # cs) a
         \<and> includesStr (takeWhile (\<lambda>x. \<not> isLineTerminator x) (drop (length a) (c # cs))) b)
      \<or> containsThen cs a b)"

fun test :: "pattern \<Rightarrow> string \<Rightarrow> bool" where
  \<comment> \<open>\<open>pattern.test(s)\<close>\<close>
  "test (StartsWithAny alts) s = list_ex (\<lambda>a. startsWith (canonicalize s) (canonicalize a)) alts"
| "test (IsAny alts) s = list_ex (\<lambda>a. canonicalize s = canonicalize a) alts"
| "test ClockTime s =
     (let rest = dropWhile isDigit s
      in takeWhile isDigit s \<noteq> [] \<and>
         (case rest of c # d # _ \<Rightarrow> c = CHR '':'' \<and> isDigit d | _ \<Rightarrow> False))"
| "test (Contains a) s = includesStr (canonicalize s) (canonicalize a)"
| "test (ContainsThen a b) s = containsThen (canonicalize s) (canonicalize a) (canonicalize b)"

definition isBlacklisted :: "string \<Rightarrow> bool" where
  "isBlacklisted text =
     (let trimmed = trim text
      in if length trimmed < 20 then True
         else if length (splitOn CHR '' '' trimmed) < 4 then True
         else list_ex (\<lambda>p. test p trimmed) blacklist)"

text \<open>
  A candidate element of the page: \<open>innerText\<close> (undefined on an element that is not an
  HTML element) and \<open>className\<close>.
\<close>

record element =
  innerText :: "string option"
  className :: string

record message =
  role :: string
  content :: string
  timestamp :: string

definition hasProperSentences :: "string \<Rightarrow> bool" where
  \<comment> \<open>\<open>/[.!?]/.test(text)\<close>\<close>
  "hasProperSentences text = list_ex (\<lambda>c. c = CHR ''.'' \<or> c = CHR ''!'' \<or> c = CHR ''?'') text"

definition wordCount :: "string \<Rightarrow> nat" where
  \<comment> \<open>\<open>text.split(/\\s+/).length\<close>\<close>
  "wordCount text = length (splitRuns isWhiteSpace text)"

definition classify :: "string \<Rightarrow> element \<Rightarrow> message option" where
  \<comment> \<open>the body of the loop over the elements of one selector: the record it pushes, if any;
      \<open>now\<close> is \<open>new Date().toISOString()\<close>\<close>
  "classify now el =
     (case innerText el of
        None \<Rightarrow> None
      | Some raw \<Rightarrow>
          (let text = trim raw
           in if text \<noteq> [] \<and> \<not> isBlacklisted text \<and> length text > 30 \<and> length text < 5000
              then (if hasProperSentences text \<and> wordCount text > 5
                    then (let classStr = toLowerCase (className el);
                              role = (if includesStr classStr ''user'' \<or> includesStr classStr ''human''
                                      then ''user'' else ''agent'')
                          in Some \<lparr>role = role, content = take 1500 text, timestamp = now\<rparr>)
                    else None)
              else None))"

definition accepted :: "string \<Rightarrow> bool" where
  \<comment> \<open>the classifier on the visible text of a candidate element: is a record pushed for it?\<close>
  "accepted raw = (classify [] \<lparr>innerText = Some raw, className = []\<rparr> \<noteq> None)"

definition conversationSelectors :: "string list" where
  "conversationSelectors =
     [''.conversation-content'', ''.agent-response'', ''.assistant-message'', ''.user-query'',
      ''[data-mode-id] .view-lines'', ''.auxiliary-bar .content'', ''.panel-content'']"

fun scanElements :: "string \<Rightarrow> element list \<Rightarrow> message list \<Rightarrow> message list" where
  \<comment> \<open>\<open>for (const el of els)\<close>, on the array \<open>messages\<close>\<close>
  "scanElements now [] messages = messages"
| "scanElements now (el # els) messages =
     scanElements now els
       (case classify now el of None \<Rightarrow> messages | Some m \<Rightarrow> messages @ [m])"

fun scanSelectors ::
  "string \<Rightarrow> (string \<Rightarrow> element list) \<Rightarrow> string list \<Rightarrow> message list \<Rightarrow> message list" where
  \<comment> \<open>\<open>for (const sel of conversationSelectors)\<close>, with its \<open>break\<close>;
      \<open>qsa\<close> is \<open>document.querySelectorAll\<close>\<close>
  "scanSelectors now qsa [] messages = messages"
| "scanSelectors now qsa (sel # sels) messages =
     (let messages' = scanElements now (qsa sel) messages
      in if length messages' > 0 then messages' else scanSelectors now qsa sels messages')"

definition chatMessages :: "string \<Rightarrow> (string \<Rightarrow> element list) \<Rightarrow> message list" where
  \<comment> \<open>the array \<open>messages\<close> when the inspection snippet of getChatMessages returns\<close>
  "chatMessages now qsa = scanSelectors now qsa conversationSelectors []"

section \<open>JavaScript values and completions\<close>

datatype json =
    JUndefined
  | JNull
  | JBool bool
  | JNaN
  | JNum int
  | JStr string
  | JArr "json list"
  | JObj "(string \<times> json) list"

fun truthy :: "json \<Rightarrow> bool" where
  "truthy JUndefined = False"
| "truthy JNull = False"
| "truthy (JBool b) = b"
| "truthy JNaN = False"
| "truthy (JNum n) = (n \<noteq> 0)"
| "truthy (JStr s) = (s \<noteq> [])"
| "truthy (JArr xs) = True"
| "truthy (JObj kvs) = True"

definition orElse :: "json \<Rightarrow> json \<Rightarrow> json" where
  \<comment> \<open>\<open>a || b\<close>\<close>
  "orElse a b = (if truthy a then a else b)"

definition field :: "(string \<times> json) list \<Rightarrow> string \<Rightarrow> json" where
  \<comment> \<open>a property of an object, \<open>undefined\<close> when it has none of that name\<close>
  "field kvs k = (case map_of kvs k of None \<Rightarrow> JUndefined | Some v \<Rightarrow> v)"

fun member :: "json \<Rightarrow> string \<Rightarrow> json" where
  \<comment> \<open>\<open>v.k\<close> for a data property \<open>k\<close> of a value that is neither undefined nor null\<close>
  "member (JObj kvs) k = field kvs k"
| "member v k = JUndefined"

datatype exn =
    Error json          \<comment> \<open>\<open>new Error(x)\<close>\<close>
  | EngineError string  \<comment> \<open>an error raised by the runtime, \<open>fetch\<close> or \<open>ws\<close>, with its message\<close>

datatype 'a completion =
    Returns 'a
  | Throws exn
  | NeverSettles        \<comment> \<open>an awaited promise that is never resolved nor rejected\<close>

definition typeError :: "json \<Rightarrow> string \<Rightarrow> exn" where
  \<comment> \<open>the TypeError of reading property \<open>k\<close> of \<open>v\<close>, for \<open>v\<close> undefined or null, with the
      message that V8 gives it\<close>
  "typeError v k =
     EngineError (''Cannot read properties of '' @ (if v = JNull then ''null'' else ''undefined'')
                  @ '' (reading '' @ [CHR 0x27] @ k @ [CHR 0x27] @ '')'')"

definition notAFunction :: "string \<Rightarrow> exn" where
  \<comment> \<open>the TypeError of calling something that is not a function\<close>
  "notAFunction callee = EngineError (callee @ '' is not a function'')"

definition andThen ::
  "('s \<Rightarrow> 's \<times> 'a completion) \<Rightarrow> ('a \<Rightarrow> 's \<Rightarrow> 's \<times> 'b completion) \<Rightarrow> 's \<Rightarrow> 's \<times> 'b completion" where
  \<comment> \<open>\<open>const a = await p; k(a)\<close>\<close>
  "andThen p k s =
     (case p s of
        (s', Returns a) \<Rightarrow> k a s'
      | (s', Throws e) \<Rightarrow> (s', Throws e)
      | (s', NeverSettles) \<Rightarrow> (s', NeverSettles))"

definition returns :: "'a \<Rightarrow> 's \<Rightarrow> 's \<times> 'a completion" where
  "returns a s = (s, Returns a)"

definition throws :: "exn \<Rightarrow> 's \<Rightarrow> 's \<times> 'a completion" where
  "throws e s = (s, Throws e)"

definition getProp :: "json \<Rightarrow> string \<Rightarrow> 's \<Rightarrow> 's \<times> json completion" where
  \<comment> \<open>\<open>v.k\<close>: a TypeError when \<open>v\<close> is undefined or null\<close>
  "getProp v k =
     (if v = JUndefined \<or> v = JNull then throws (typeError v k) else returns (member v k))"

definition optProp :: "json \<Rightarrow> string \<Rightarrow> json" where
  \<comment> \<open>\<open>v?.k\<close>\<close>
  "optProp v k = (if v = JUndefined \<or> v = JNull then JUndefined else member v k)"

definition tryFinally ::
  "('s \<Rightarrow> 's \<times> 'a completion) \<Rightarrow> ('s \<Rightarrow> 's) \<Rightarrow> 's \<Rightarrow> 's \<times> 'a completion" where
  \<comment> \<open>\<open>try { body } finally { fin }\<close>, for a \<open>fin\<close> that does not throw: it runs when the
      body returns and when it throws, and never when the body awaits for ever\<close>
  "tryFinally body fin s =
     (case body s of
        (s', NeverSettles) \<Rightarrow> (s', NeverSettles)
      | (s', c) \<Rightarrow> (fin s', c))"

section \<open>The session channel (connectToTarget)\<close>

text \<open>
  The state that \<open>connectToTarget\<close> closes over: the counter \<open>messageId\<close>, the map
  \<open>pending\<close> and the socket \<open>ws\<close>. A promise made by \<open>send\<close> is named by its handle, the
  number of promises made before it; \<open>pending\<close> maps an identifier to the handle whose
  \<open>resolve\<close> and \<open>reject\<close> it stores. \<open>settled\<close> records every call of a stored
  \<open>resolve\<close> or \<open>reject\<close>, \<open>wire\<close> every call of \<open>ws.send\<close> and \<open>ws.close\<close>.
  Identifiers are integers (the rounding of JavaScript numbers beyond \<open>2^53\<close> is not
  modelled).
\<close>

datatype settlement = Resolved json | Rejected exn

datatype ws_call = WsSend json | WsClose

record session =
  messageId :: int
  pending :: "int \<rightharpoonup> nat"
  promises :: nat
  settled :: "(nat \<times> settlement) list"
  wire :: "ws_call list"

definition fresh :: session where
  "fresh = \<lparr>messageId = 1, pending = Map.empty, promises = 0, settled = [], wire = []\<rparr>"

definition send :: "string \<Rightarrow> json \<Rightarrow> session \<Rightarrow> nat \<times> session" where
  \<comment> \<open>\<open>client.send(method, params)\<close>: the handle of the promise it returns, and the state\<close>
  "send method params s =
     (let id = messageId s
      in (promises s,
          s\<lparr>messageId := id + 1,
            pending := (pending s)(id \<mapsto> promises s),
            promises := promises s + 1,
            wire := wire s @ [WsSend (JObj [(''id'', JNum id), (''method'', JStr method),
                                            (''params'', params)])]\<rparr>))"

definition close :: "session \<Rightarrow> session" where
  \<comment> \<open>\<open>client.close()\<close>, that is \<open>ws.close()\<close>\<close>
  "close s = s\<lparr>wire := wire s @ [WsClose]\<rparr>"

definition onMessage :: "(string \<times> json) list \<Rightarrow> session \<Rightarrow> session" where
  \<comment> \<open>the handler of \<open>'message'\<close>, on the fields of the parsed message object\<close>
  "onMessage msg s =
     (case field msg ''id'' of
        JNum i \<Rightarrow>
          (if i \<noteq> 0 then
             (case pending s i of
                None \<Rightarrow> s
              | Some h \<Rightarrow>
                  (let s' = s\<lparr>pending := (pending s)(i := None)\<rparr>
                   in if truthy (field msg ''error'')
                      then s'\<lparr>settled := settled s' @
                                 [(h, Rejected (Error (member (field msg ''error'') ''message'')))]\<rparr>
                      else s'\<lparr>settled := settled s' @ [(h, Resolved (field msg ''result''))]\<rparr>))
           else s)
      | _ \<Rightarrow> s)"

text \<open>
  A run of an open session: calls of \<open>send\<close>, arriving messages and calls of \<open>close\<close>, in
  any order, from the state in which \<open>'open'\<close> fires.
\<close>

datatype event = Send string json | Message "(string \<times> json) list" | Close

fun step :: "session \<Rightarrow> event \<Rightarrow> session" where
  "step s (Send method params) = snd (send method params s)"
| "step s (Message msg) = onMessage msg s"
| "step s Close = close s"

definition run :: "event list \<Rightarrow> session" where
  "run evs = foldl step fresh evs"

section \<open>Target discovery\<close>

record target =
  ttype :: string                           \<comment> \<open>\<open>type\<close>\<close>
  title :: string
  url :: string
  webSocketDebuggerUrl :: "string option"   \<comment> \<open>\<open>None\<close>: the property is absent\<close>

text \<open>
  What the controlled process and the network do, as far as one command sees it: the answer
  of \<open>GET /json/list\<close> and of \<open>GET /json/version\<close> (an error when \<open>fetch\<close> or
  \<open>response.json()\<close> rejects), the outcome of the WebSocket handshake (\<open>Some e\<close>: \<open>'error'\<close>
  fires before \<open>'open'\<close>), and the messages that arrive on the socket while the request with
  a given identifier is awaited.
\<close>

record remote =
  jsonList :: "exn + target list"
  jsonVersion :: "exn + json"
  handshake :: "exn option"
  inbox :: "int \<Rightarrow> (string \<times> json) list list"

definition isEditor :: "target \<Rightarrow> bool" where
  "isEditor t =
     (ttype t = ''page'' \<and> includesStr (title t) ''Antigravity''
      \<and> \<not> includesStr (title t) ''Launchpad'' \<and> \<not> includesStr (url t) ''devtools'')"

definition selectEditor :: "target list \<Rightarrow> target option" where
  \<comment> \<open>\<open>editor || targets.find(t => t.type === 'page')\<close>\<close>
  "selectEditor targets =
     (case find isEditor targets of
        Some editor \<Rightarrow> Some editor
      | None \<Rightarrow> find (\<lambda>t. ttype t = ''page'') targets)"

definition findEditorTarget :: "remote \<Rightarrow> exn + target option" where
  "findEditorTarget r =
     (case jsonList r of Inl e \<Rightarrow> Inl e | Inr targets \<Rightarrow> Inr (selectEditor targets))"

definition connectToTarget :: "remote \<Rightarrow> target \<Rightarrow> exn + session" where
  "connectToTarget r t =
     (case webSocketDebuggerUrl t of
        None \<Rightarrow> Inl (Error (JStr ''No WebSocket URL for target''))
      | Some wsUrl \<Rightarrow>
          if wsUrl = [] then Inl (Error (JStr ''No WebSocket URL for target''))
          else (case handshake r of Some e \<Rightarrow> Inl e | None \<Rightarrow> Inr fresh))"

definition awaitSend :: "remote \<Rightarrow> string \<Rightarrow> json \<Rightarrow> session \<Rightarrow> session \<times> json completion" where
  \<comment> \<open>\<open>await client.send(method, params)\<close>: the request goes out, the messages of the
      inbox are handled, and the promise is looked up\<close>
  "awaitSend r method params s =
     (let (h, s1) = send method params s;
          s2 = foldl (\<lambda>s msg. onMessage msg s) s1 (inbox r (messageId s))
      in (s2, case map_of (settled s2) h of
                None \<Rightarrow> NeverSettles
              | Some (Resolved v) \<Rightarrow> Returns v
              | Some (Rejected e) \<Rightarrow> Throws e))"

definition noEditor :: exn where
  "noEditor = Error (JStr ''No editor target found'')"

definition snippet :: "string \<Rightarrow> json" where
  \<comment> \<open>the source text of an inspection snippet, named rather than written out\<close>
  "snippet name = JStr name"

section \<open>The command facade\<close>

text \<open>
  A command yields the session it opened, if it opened one, in its last state, and its
  completion.
\<close>

definition captureScreenshot :: "json \<Rightarrow> remote \<Rightarrow> session option \<times> json completion" where
  \<comment> \<open>\<open>opts\<close> is the argument; \<open>undefined\<close> takes the default \<open>{}\<close>\<close>
  "captureScreenshot opts r =
     (let options = (if opts = JUndefined then JObj [] else opts)
      in case findEditorTarget r of
           Inl e \<Rightarrow> (None, Throws e)
         | Inr None \<Rightarrow> (None, Throws noEditor)
         | Inr (Some target) \<Rightarrow>
             (case connectToTarget r target of
                Inl e \<Rightarrow> (None, Throws e)
              | Inr client \<Rightarrow>
                  (case tryFinally
                          (andThen (getProp options ''format'') (\<lambda>format.
                           andThen (getProp options ''quality'') (\<lambda>quality.
                           andThen (awaitSend r ''Page.captureScreenshot''
                                      (JObj [(''format'', orElse format (JStr ''png'')),
                                             (''quality'', orElse quality (JNum 80)),
                                             (''captureBeyondViewport'', JBool False)])) (\<lambda>result.
                           getProp result ''data''))))
                          close client of
                     (s, c) \<Rightarrow> (Some s, c))))"

definition getPageMetrics :: "remote \<Rightarrow> session option \<times> json completion" where
  "getPageMetrics r =
     (case findEditorTarget r of
        Inl e \<Rightarrow> (None, Throws e)
      | Inr None \<Rightarrow> (None, Throws noEditor)
      | Inr (Some target) \<Rightarrow>
          (case connectToTarget r target of
             Inl e \<Rightarrow> (None, Throws e)
           | Inr client \<Rightarrow>
               (case tryFinally
                       (andThen (awaitSend r ''Page.getLayoutMetrics'' (JObj [])) (\<lambda>metrics.
                        returns metrics))
                       close client of
                  (s, c) \<Rightarrow> (Some s, c))))"

definition upperChar :: "char \<Rightarrow> string" where
  \<comment> \<open>upper case of one code unit: a-z, the lower-case letters of Latin-1, and the sharp s,
      which becomes \<open>SS\<close>. The micro sign and the y with diaeresis, whose upper case lies
      outside Latin-1, are not covered and stay as they are.\<close>
  "upperChar c =
     (case map_of (zip ''abcdefghijklmnopqrstuvwxyz'' ''ABCDEFGHIJKLMNOPQRSTUVWXYZ'') c of
        Some d \<Rightarrow> [d]
      | None \<Rightarrow>
          (let n = (of_char c :: nat)
           in if n = 223 then ''SS''
              else if 224 \<le> n \<and> n \<le> 254 \<and> n \<noteq> 247 then [char_of (n - 32)]
              else [c]))"

definition toUpperCase :: "string \<Rightarrow> string" where
  \<comment> \<open>\<open>String.prototype.toUpperCase\<close>\<close>
  "toUpperCase s = concat (map upperChar s)"

definition sleep :: "nat \<Rightarrow> 's \<Rightarrow> 's \<times> json completion" where
  \<comment> \<open>\<open>await new Promise(r => setTimeout(r, ms))\<close>\<close>
  "sleep ms = returns JUndefined"

fun typeChars :: "remote \<Rightarrow> string \<Rightarrow> session \<Rightarrow> session \<times> json completion" where
  \<comment> \<open>\<open>for (const char of text)\<close>\<close>
  "typeChars r [] = returns JUndefined"
| "typeChars r (char # rest) =
     andThen (awaitSend r ''Input.dispatchKeyEvent''
                (JObj [(''type'', JStr ''keyDown''), (''text'', JStr [char]), (''key'', JStr [char]),
                       (''code'', JStr (''Key'' @ toUpperCase [char]))])) (\<lambda>_.
     andThen (awaitSend r ''Input.dispatchKeyEvent''
                (JObj [(''type'', JStr ''keyUp''), (''key'', JStr [char]),
                       (''code'', JStr (''Key'' @ toUpperCase [char]))])) (\<lambda>_.
     typeChars r rest))"

definition injectCommand :: "string \<Rightarrow> remote \<Rightarrow> session option \<times> json completion" where
  "injectCommand text r =
     (case findEditorTarget r of
        Inl e \<Rightarrow> (None, Throws e)
      | Inr None \<Rightarrow> (None, Throws noEditor)
      | Inr (Some target) \<Rightarrow>
          (case connectToTarget r target of
             Inl e \<Rightarrow> (None, Throws e)
           | Inr client \<Rightarrow>
               (case tryFinally
                       (andThen (awaitSend r ''Runtime.evaluate''
                                   (JObj [(''expression'', snippet ''focus the input field''),
                                          (''returnByValue'', JBool True)])) (\<lambda>_.
                        andThen (sleep 100) (\<lambda>_.
                        andThen (typeChars r text) (\<lambda>_.
                        returns (JObj [(''success'', JBool True), (''injected'', JStr text)])))))
                       close client of
                  (s, c) \<Rightarrow> (Some s, c))))"

definition enterKey :: "string \<Rightarrow> json" where
  "enterKey type =
     JObj [(''type'', JStr type), (''key'', JStr ''Enter''), (''code'', JStr ''Enter''),
           (''windowsVirtualKeyCode'', JNum 13), (''nativeVirtualKeyCode'', JNum 13)]"

definition injectAndSubmit :: "string \<Rightarrow> remote \<Rightarrow> session option \<times> json completion" where
  "injectAndSubmit text r =
     (case findEditorTarget r of
        Inl e \<Rightarrow> (None, Throws e)
      | Inr None \<Rightarrow> (None, Throws noEditor)
      | Inr (Some target) \<Rightarrow>
          (case connectToTarget r target of
             Inl e \<Rightarrow> (None, Throws e)
           | Inr client \<Rightarrow>
               (case tryFinally
                       (andThen (awaitSend r ''Input.insertText'' (JObj [(''text'', JStr text)])) (\<lambda>_.
                        andThen (sleep 50) (\<lambda>_.
                        andThen (awaitSend r ''Input.dispatchKeyEvent'' (enterKey ''keyDown'')) (\<lambda>_.
                        andThen (awaitSend r ''Input.dispatchKeyEvent'' (enterKey ''keyUp'')) (\<lambda>_.
                        returns (JObj [(''success'', JBool True), (''submitted'', JStr text)]))))))
                       close client of
                  (s, c) \<Rightarrow> (Some s, c))))"

definition evaluateSnippet ::
  "remote \<Rightarrow> string \<Rightarrow> json \<Rightarrow> session \<Rightarrow> session \<times> json completion" where
  \<comment> \<open>the body shared by the commands that evaluate one snippet and return
      \<open>result.result?.value || dflt\<close>\<close>
  "evaluateSnippet r name dflt =
     andThen (awaitSend r ''Runtime.evaluate''
                (JObj [(''expression'', snippet name), (''returnByValue'', JBool True)])) (\<lambda>result.
     andThen (getProp result ''result'') (\<lambda>inner.
     returns (orElse (optProp inner ''value'') dflt)))"

definition focusInput :: "remote \<Rightarrow> session option \<times> json completion" where
  "focusInput r =
     (case findEditorTarget r of
        Inl e \<Rightarrow> (None, Throws e)
      | Inr None \<Rightarrow> (None, Throws noEditor)
      | Inr (Some target) \<Rightarrow>
          (case connectToTarget r target of
             Inl e \<Rightarrow> (None, Throws e)
           | Inr client \<Rightarrow>
               (case tryFinally
                       (evaluateSnippet r ''focus input'' (JObj [(''success'', JBool False)]))
                       close client of
                  (s, c) \<Rightarrow> (Some s, c))))"

definition getChatMessages :: "remote \<Rightarrow> session option \<times> json completion" where
  "getChatMessages r =
     (case findEditorTarget r of
        Inl e \<Rightarrow> (None, Throws e)
      | Inr None \<Rightarrow> (None, Throws noEditor)
      | Inr (Some target) \<Rightarrow>
          (case connectToTarget r target of
             Inl e \<Rightarrow> (None, Throws e)
           | Inr client \<Rightarrow>
               (case tryFinally
                       (evaluateSnippet r ''chat messages''
                          (JObj [(''messages'', JArr []), (''count'', JNum 0)]))
                       close client of
                  (s, c) \<Rightarrow> (Some s, c))))"

definition getAgentPanelContent :: "remote \<Rightarrow> session option \<times> json completion" where
  "getAgentPanelContent r =
     (case findEditorTarget r of
        Inl e \<Rightarrow> (None, Throws e)
      | Inr None \<Rightarrow> (None, Throws noEditor)
      | Inr (Some target) \<Rightarrow>
          (case connectToTarget r target of
             Inl e \<Rightarrow> (None, Throws e)
           | Inr client \<Rightarrow>
               (case tryFinally
                       (evaluateSnippet r ''agent panel''
                          (JObj [(''found'', JBool False), (''content'', JStr [])]))
                       close client of
                  (s, c) \<Rightarrow> (Some s, c))))"

definition getConversationText :: "remote \<Rightarrow> session option \<times> json completion" where
  "getConversationText r =
     (case findEditorTarget r of
        Inl e \<Rightarrow> (None, Throws e)
      | Inr None \<Rightarrow> (None, Throws noEditor)
      | Inr (Some target) \<Rightarrow>
          (case connectToTarget r target of
             Inl e \<Rightarrow> (None, Throws e)
           | Inr client \<Rightarrow>
               (case tryFinally
                       (evaluateSnippet r ''conversation text'' (JObj [(''found'', JBool False)]))
                       close client of
                  (s, c) \<Rightarrow> (Some s, c))))"

fun digitsOf :: "nat \<Rightarrow> string" where
  \<comment> \<open>the decimal digits of a number\<close>
  "digitsOf n =
     (if n < 10 then [''0123456789'' ! n]
      else digitsOf (n div 10) @ [''0123456789'' ! (n mod 10)])"

declare digitsOf.simps [simp del]

fun stringOf :: "json \<Rightarrow> string" where
  \<comment> \<open>\<open>String(x)\<close>; a number is written without exponent, as JavaScript does below
      \<open>10^21\<close>\<close>
  "stringOf JUndefined = ''undefined''"
| "stringOf JNull = ''null''"
| "stringOf (JBool b) = (if b then ''true'' else ''false'')"
| "stringOf JNaN = ''NaN''"
| "stringOf (JNum n) = (if n < 0 then ''-'' @ digitsOf (nat (- n)) else digitsOf (nat n))"
| "stringOf (JStr s) = s"
| "stringOf (JArr xs) =
     join '','' (map (\<lambda>x. if x = JUndefined \<or> x = JNull then [] else stringOf x) xs)"
| "stringOf (JObj kvs) = ''[object Object]''"

definition messageOf :: "exn \<Rightarrow> json" where
  \<comment> \<open>\<open>e.message\<close>; \<open>new Error(x)\<close> has the message \<open>String(x)\<close>, and the empty message
      for an undefined \<open>x\<close>\<close>
  "messageOf e =
     (case e of
        Error x \<Rightarrow> JStr (if x = JUndefined then [] else stringOf x)
      | EngineError m \<Rightarrow> JStr m)"

definition tryCatch ::
  "('s \<Rightarrow> 's \<times> 'a completion) \<Rightarrow> (exn \<Rightarrow> 's \<Rightarrow> 's \<times> 'a completion) \<Rightarrow> 's \<Rightarrow> 's \<times> 'a completion" where
  \<comment> \<open>\<open>try { body } catch (e) { handler }\<close>\<close>
  "tryCatch body handler s =
     (case body s of
        (s', Throws e) \<Rightarrow> handler e s'
      | (s', c) \<Rightarrow> (s', c))"

definition getVersion :: "remote \<Rightarrow> 's \<Rightarrow> 's \<times> json completion" where
  "getVersion r = (case jsonVersion r of Inl e \<Rightarrow> throws e | Inr version \<Rightarrow> returns version)"

definition isAvailable :: "remote \<Rightarrow> json completion" where
  "isAvailable r =
     snd (tryCatch
            (andThen (getVersion r) (\<lambda>version.
             andThen (getProp version ''Browser'') (\<lambda>browser.
             returns (JObj [(''available'', JBool True), (''browser'', browser)]))))
            (\<lambda>e. returns (JObj [(''available'', JBool False), (''error'', messageOf e)]))
            ())"

section \<open>The workspace locator (getWorkspacePath)\<close>

definition isLetter :: "char \<Rightarrow> bool" where
  \<comment> \<open>\<open>(ch >= 'A' && ch <= 'Z') || (ch >= 'a' && ch <= 'z')\<close>\<close>
  "isLetter ch =
     (let n = (of_char ch :: nat) in (65 \<le> n \<and> n \<le> 90) \<or> (97 \<le> n \<and> n \<le> 122))"

fun endIndex :: "string list \<Rightarrow> string \<Rightarrow> nat \<Rightarrow> nat" where
  \<comment> \<open>the loop over \<open>delims\<close>, on \<open>endIdx\<close>\<close>
  "endIndex [] pathPart endIdx = endIdx"
| "endIndex (d # ds) pathPart endIdx =
     endIndex ds pathPart
       (case indexOf pathPart d of
          None \<Rightarrow> endIdx
        | Some idx \<Rightarrow> if idx > 0 \<and> idx < endIdx then idx else endIdx)"

definition cutPath :: "string list \<Rightarrow> string \<Rightarrow> string" where
  \<comment> \<open>\<open>pathPart.substring(0, endIdx).trim()\<close>\<close>
  "cutPath delims pathPart = trim (take (endIndex delims pathPart (length pathPart)) pathPart)"

fun windowsPath :: "string \<Rightarrow> string option" where
  \<comment> \<open>the loop over \<open>k\<close>: a letter followed by a colon starts a Windows path\<close>
  "windowsPath (ch # next # rest) =
     (if isLetter ch \<and> next = CHR '':''
      then Some (cutPath ['','', '';'', '' - ''] (ch # next # rest))
      else windowsPath (next # rest))"
| "windowsPath src = None"

fun unixPath :: "string list \<Rightarrow> string \<Rightarrow> string option" where
  \<comment> \<open>the loop over \<open>unixRoots\<close>\<close>
  "unixPath [] src = None"
| "unixPath (root # roots) src =
     (case indexOf src root of
        Some idx \<Rightarrow> Some (cutPath ['','', '';'', '' - '', [CHR 0x27], [CHR 0x22]] (drop idx src))
      | None \<Rightarrow> unixPath roots src)"

definition found :: "string \<Rightarrow> string \<Rightarrow> bool \<Rightarrow> json" where
  "found path source isWin =
     JObj [(''path'', JStr path), (''source'', JStr source), (''isWindows'', JBool isWin)]"

fun scanSources :: "string list \<Rightarrow> json option" where
  \<comment> \<open>the loop over \<open>sources\<close>; \<open>Some\<close> is a \<open>return\<close>\<close>
  "scanSources [] = None"
| "scanSources (src # srcs) =
     (if src = [] \<or> length src < 5 then scanSources srcs
      else (case windowsPath src of
              Some path \<Rightarrow> Some (found path ''tab'' True)
            | None \<Rightarrow>
                (case unixPath [''/home/'', ''/Users/'', ''/var/'', ''/opt/''] src of
                   Some path \<Rightarrow> Some (found path ''tab'' False)
                 | None \<Rightarrow> scanSources srcs)))"

text \<open>
  A tab element is given by its attributes \<open>aria-label\<close> and \<open>title\<close> (\<open>None\<close>: absent), an
  element with a \<open>data-uri\<close> attribute by the value of the attribute.
\<close>

record page =
  tabs :: "(string option \<times> string option) list"
  dataUris :: "string list"

fun scanTabs :: "(string option \<times> string option) list \<Rightarrow> json option" where
  "scanTabs [] = None"
| "scanTabs ((ariaLabel, ttl) # rest) =
     (case scanSources [case ariaLabel of None \<Rightarrow> [] | Some l \<Rightarrow> l,
                        case ttl of None \<Rightarrow> [] | Some t \<Rightarrow> t] of
        Some res \<Rightarrow> Some res
      | None \<Rightarrow> scanTabs rest)"

fun scanUris :: "(string \<Rightarrow> string option) \<Rightarrow> string list \<Rightarrow> json option" where
  \<comment> \<open>method 2; \<open>decode\<close> is \<open>decodeURIComponent\<close>, \<open>None\<close> when it throws\<close>
  "scanUris decode [] = None"
| "scanUris decode (uri # uris) =
     (if uri \<noteq> [] \<and> startsWith uri ''file:///''
      then (case decode (drop 8 uri) of
              None \<Rightarrow> scanUris decode uris
            | Some decoded \<Rightarrow>
                (let isWin = (length decoded > 1 \<and> decoded ! 1 = CHR '':'')
                 in Some (found (if isWin
                                 then map (\<lambda>c. if c = CHR ''/'' then CHR 0x5C else c) decoded
                                 else decoded)
                                ''data-uri'' isWin)))
      else scanUris decode uris)"

definition workspaceSnippet :: "(string \<Rightarrow> string option) \<Rightarrow> page \<Rightarrow> json" where
  \<comment> \<open>the value of the inspection snippet of getWorkspacePath on a page\<close>
  "workspaceSnippet decode pg =
     (case scanTabs (tabs pg) of
        Some res \<Rightarrow> res
      | None \<Rightarrow>
          (case scanUris decode (dataUris pg) of
             Some res \<Rightarrow> res
           | None \<Rightarrow> JObj [(''path'', JNull), (''error'', JStr ''No path found'')]))"

definition projectNameOf :: "string \<Rightarrow> string option" where
  \<comment> \<open>\<open>title.match(/^([^-]+)\\s*-\\s*Antigravity/)\<close>, then \<open>titleMatch[1].trim()\<close>: the
      group is the text before the first hyphen\<close>
  "projectNameOf ttl =
     (let name = takeWhile (\<lambda>c. c \<noteq> CHR ''-'') ttl;
          rest = dropWhile (\<lambda>c. c \<noteq> CHR ''-'') ttl
      in if name \<noteq> [] \<and> rest \<noteq> [] \<and> startsWith (dropWhile isWhiteSpace (tl rest)) ''Antigravity''
         then Some (trim name) else None)"

fun firstMatch :: "string \<Rightarrow> string list \<Rightarrow> nat option" where
  \<comment> \<open>the first \<open>i\<close> with \<open>pathParts[i].toLowerCase() === projectName.toLowerCase()\<close>\<close>
  "firstMatch name [] = None"
| "firstMatch name (p # ps) =
     (if toLowerCase p = toLowerCase name then Some 0 else map_option Suc (firstMatch name ps))"

definition first :: "string list \<Rightarrow> string" where
  \<comment> \<open>\<open>xs[0]\<close> in a string concatenation: \<open>undefined\<close> is written out as text\<close>
  "first xs = (case xs of [] \<Rightarrow> ''undefined'' | x # _ \<Rightarrow> x)"

definition workspaceOf :: "string \<Rightarrow> bool \<Rightarrow> string option \<Rightarrow> string" where
  \<comment> \<open>from \<open>const filePath = data.path\<close> to the end of the \<open>try\<close> block\<close>
  "workspaceOf filePath isWindows projectName =
     (let pathParts =
            filter (\<lambda>p. p \<noteq> [])
              (splitRuns (\<lambda>c. if isWindows then c = CHR 0x5C \<or> c = CHR ''/'' else c = CHR ''/'')
                 filePath)
      in case (case projectName of
                 None \<Rightarrow> None
               | Some name \<Rightarrow> if name = [] then None else firstMatch name pathParts) of
           Some i \<Rightarrow>
             (if isWindows
              then first pathParts @ [CHR 0x5C] @ join [CHR 0x5C] (take i (drop 1 pathParts))
              else ''/'' @ join ''/'' (take (i + 1) pathParts))
         | None \<Rightarrow>
             (let parentParts = butlast pathParts
              in if isWindows
                 then first parentParts @ [CHR 0x5C] @ join [CHR 0x5C] (drop 1 parentParts)
                 else ''/'' @ join ''/'' parentParts))"

definition getWorkspacePath :: "remote \<Rightarrow> session option \<times> json completion" where
  "getWorkspacePath r =
     (case findEditorTarget r of
        Inl e \<Rightarrow> (None, Throws e)
      | Inr None \<Rightarrow> (None, Returns JNull)
      | Inr (Some target) \<Rightarrow>
          (let projectName = projectNameOf (title target)
           in case connectToTarget r target of
                Inl e \<Rightarrow> (None, Throws e)
              | Inr client \<Rightarrow>
                  (case tryFinally
                          (andThen (awaitSend r ''Runtime.evaluate''
                                      (JObj [(''expression'', snippet ''workspace path''),
                                             (''returnByValue'', JBool True)])) (\<lambda>result.
                           andThen (getProp result ''result'') (\<lambda>inner.
                           (let data = optProp inner ''value''
                            in if \<not> truthy (optProp data ''path'') then returns JNull
                               else (case member data ''path'' of
                                       JStr filePath \<Rightarrow>
                                         returns (JStr (workspaceOf filePath
                                                          (truthy (member data ''isWindows''))
                                                          projectName))
                                     | _ \<Rightarrow> throws (notAFunction ''filePath.split''))))))
                          close client of
                     (s, c) \<Rightarrow> (Some s, c))))"

section \<open>Observations and the specification's wording\<close>

definition closes :: "session \<Rightarrow> nat" where
  \<comment> \<open>how often \<open>ws.close()\<close> was called\<close>
  "closes s = length (filter (\<lambda>w. w = WsClose) (wire s))"

definition firstRequest :: "session \<Rightarrow> json" where
  \<comment> \<open>the first request object handed to \<open>ws.send\<close>\<close>
  "firstRequest s = (case wire s of WsSend req # _ \<Rightarrow> req | _ \<Rightarrow> JUndefined)"

definition claimedAccepted :: "string \<Rightarrow> bool" where
  \<comment> \<open>acceptance as the specification words it: at least 20 characters, at least 4 words,
      no blacklist entry, sentence punctuation, more than 5 words\<close>
  "claimedAccepted raw =
     (let text = trim raw
      in length text \<ge> 20 \<and> length (splitOn CHR '' '' text) \<ge> 4
         \<and> \<not> list_ex (\<lambda>p. test p text) blacklist
         \<and> hasProperSentences text \<and> wordCount text > 5)"

fun claimedScan :: "string \<Rightarrow> (string \<Rightarrow> element list) \<Rightarrow> string list \<Rightarrow> message list" where
  \<comment> \<open>the scan as the specification words it: stop at the first selector that yields any
      candidate element\<close>
  "claimedScan now qsa [] = []"
| "claimedScan now qsa (sel # sels) =
     (if qsa sel \<noteq> [] then scanElements now (qsa sel) [] else claimedScan now qsa sels)"

definition page1 :: target where
  "page1 = \<lparr>ttype = ''page'', title = ''MyProject - Antigravity'', url = ''vscode-file://vscode-app/workbench.html'',
            webSocketDebuggerUrl = Some ''ws://localhost:9222/devtools/page/1''\<rparr>"

definition page2 :: target where
  "page2 = \<lparr>ttype = ''page'', title = ''Antigravity - Launchpad'', url = ''vscode-file://vscode-app/launchpad.html'',
            webSocketDebuggerUrl = Some ''ws://localhost:9222/devtools/page/2''\<rparr>"

definition answering :: "target list \<Rightarrow> json \<Rightarrow> remote" where
  \<comment> \<open>a controlled process with the given targets that answers every request with the
      given result\<close>
  "answering targets res =
     \<lparr>jsonList = Inr targets,
      jsonVersion = Inr (JObj [(''Browser'', JStr ''Chrome/120.0.0.0'')]),
      handshake = None,
      inbox = (\<lambda>i. [[(''id'', JNum i), (''result'', res)]])\<rparr>"

definition rejecting :: "target list \<Rightarrow> string \<Rightarrow> remote" where
  \<comment> \<open>a controlled process that answers every request with a protocol error\<close>
  "rejecting targets m =
     \<lparr>jsonList = Inr targets,
      jsonVersion = Inl (EngineError ''fetch failed''),
      handshake = None,
      inbox = (\<lambda>i. [[(''id'', JNum i), (''error'', JObj [(''message'', JStr m)])]])\<rparr>"

definition worker :: target where
  "worker = \<lparr>ttype = ''service_worker'', title = ''Service Worker'', url = ''chrome-extension://worker.js'',
             webSocketDebuggerUrl = Some ''ws://localhost:9222/devtools/page/3''\<rparr>"

definition prose :: string where
  "prose = ''The function failed because the input was malformed, please retry.''"

definition examplePage :: "string \<Rightarrow> element list" where
  "examplePage sel =
     (if sel = ''.conversation-content'' then [\<lparr>innerText = Some ''Submit'', className = ''button''\<rparr>]
      else if sel = ''.agent-response'' then [\<lparr>innerText = Some prose, className = ''agent-response''\<rparr>]
      else [])"

definition previewTab :: page where
  \<comment> \<open>a page whose only tab is labelled \<open>Preview: README.md\<close>\<close>
  "previewTab = \<lparr>tabs = [(Some ''Preview: README.md'', None)], dataUris = []\<rparr>"

definition sourceTab :: page where
  "sourceTab = \<lparr>tabs = [(Some ''/Users/alice/MyProject/src/index.ts - MyProject'', None)],
                dataUris = []\<rparr>"

definition evaluated :: "json \<Rightarrow> json" where
  \<comment> \<open>the result of \<open>Runtime.evaluate\<close> with \<open>returnByValue\<close> for a snippet of that value\<close>
  "evaluated v = JObj [(''result'', JObj [(''value'', v)])]"







section \<open>The session channel: correlation of responses\<close>












text \<open>
  Claim C5 as stated fails: a request that is pending when the session closes is not
  rejected. After \<open>send\<close> and \<open>close\<close>, request 1 is still in \<open>pending\<close> and no \<open>reject\<close>
  has been called.
\<close>

theorem close_rejects_pending_counterexample:
  "pending (run [Send ''Page.captureScreenshot'' (JObj []), Close]) 1 = Some 0
   \<and> settled (run [Send ''Page.captureScreenshot'' (JObj []), Close]) = []
   \<and> last (wire (run [Send ''Page.captureScreenshot'' (JObj []), Close])) = WsClose"
  by (simp add: run_def send_def close_def fresh_def)

text \<open>
  Claim C5, amended. \<open>close()\<close> only closes the socket: it leaves every pending entry in
  place and settles no promise, in every state and so at the end of every run.
\<close>

theorem close_leaves_pending:
  "pending (close s) = pending s \<and> settled (close s) = settled s
   \<and> wire (close s) = wire s @ [WsClose]
   \<and> pending (run (evs @ [Close])) = pending (run evs)
   \<and> settled (run (evs @ [Close])) = settled (run evs)"
  by (simp add: close_def run_def)

section \<open>The command facade: the session is closed\<close>

lemma wire_onMessage: "wire (onMessage msg s) = wire s"
  by (simp add: onMessage_def Let_def split: json.splits option.splits)

lemma wire_inbox: "wire (foldl (\<lambda>s msg. onMessage msg s) s msgs) = wire s"
  by (induction msgs arbitrary: s) (simp_all add: wire_onMessage)

lemma wire_awaitSend:
  "wire (fst (awaitSend r method params s)) =
     wire s @ [WsSend (JObj [(''id'', JNum (messageId s)), (''method'', JStr method),
                             (''params'', params)])]"
  by (simp add: awaitSend_def send_def Let_def wire_inbox split: prod.splits)










lemma connect_fresh: "connectToTarget r t = Inr client \<Longrightarrow> client = fresh"
  by (auto simp: connectToTarget_def split: option.splits if_splits)













lemmas facade_defs =
  findEditorTarget_def selectEditor_def isEditor_def connectToTarget_def
  tryFinally_def andThen_def getProp_def optProp_def returns_def throws_def sleep_def
  awaitSend_def send_def fresh_def onMessage_def field_def orElse_def close_def closes_def
  evaluateSnippet_def answering_def rejecting_def page1_def page2_def typeError_def






























section \<open>Target selection\<close>

lemma selectEditor_None: "(selectEditor targets = None) = (\<forall>t\<in>set targets. ttype t \<noteq> ''page'')"
  unfolding selectEditor_def
  by (auto simp: find_None_iff find_Some_iff isEditor_def split: option.splits)

lemma selectEditor_preferred:
  assumes "i < length targets" "isEditor (targets ! i)" "\<forall>j<i. \<not> isEditor (targets ! j)"
  shows "selectEditor targets = Some (targets ! i)"
proof -
  have "find isEditor targets = Some (targets ! i)"
    using assms by (auto simp: find_Some_iff)
  then show ?thesis by (simp add: selectEditor_def)
qed

lemma selectEditor_fallback:
  assumes "\<forall>u\<in>set targets. \<not> isEditor u" "i < length targets" "ttype (targets ! i) = ''page''"
    "\<forall>j<i. ttype (targets ! j) \<noteq> ''page''"
  shows "selectEditor targets = Some (targets ! i)"
proof -
  have "find isEditor targets = None"
    using assms(1) by (simp add: find_None_iff)
  moreover have "find (\<lambda>t. ttype t = ''page'') targets = Some (targets ! i)"
    using assms(2-4) by (auto simp: find_Some_iff)
  ultimately show ?thesis by (simp add: selectEditor_def)
qed

lemma no_page_commands:
  assumes "jsonList r = Inr targets" "\<forall>t\<in>set targets. ttype t \<noteq> ''page''"
  shows "captureScreenshot opts r = (None, Throws noEditor)"
    "getPageMetrics r = (None, Throws noEditor)"
    "injectCommand txt r = (None, Throws noEditor)"
    "injectAndSubmit txt r = (None, Throws noEditor)"
    "focusInput r = (None, Throws noEditor)"
    "getChatMessages r = (None, Throws noEditor)"
    "getAgentPanelContent r = (None, Throws noEditor)"
    "getConversationText r = (None, Throws noEditor)"
    "getWorkspacePath r = (None, Returns JNull)"
proof -
  have "findEditorTarget r = Inr None"
    using assms selectEditor_None[of targets] by (simp add: findEditorTarget_def)
  then show "captureScreenshot opts r = (None, Throws noEditor)"
    "getPageMetrics r = (None, Throws noEditor)"
    "injectCommand txt r = (None, Throws noEditor)"
    "injectAndSubmit txt r = (None, Throws noEditor)"
    "focusInput r = (None, Throws noEditor)"
    "getChatMessages r = (None, Throws noEditor)"
    "getAgentPanelContent r = (None, Throws noEditor)"
    "getConversationText r = (None, Throws noEditor)"
    "getWorkspacePath r = (None, Returns JNull)"
    by (simp_all add: captureScreenshot_def getPageMetrics_def injectCommand_def
        injectAndSubmit_def focusInput_def getChatMessages_def getAgentPanelContent_def
        getConversationText_def getWorkspacePath_def)
qed

text \<open>
  Claim C3 as stated fails in its last part: on a target list without a page,
  getWorkspacePath does not signal \<open>No editor target found\<close>, it returns \<open>null\<close>.
\<close>

theorem no_editor_signalled_counterexample:
  "selectEditor [worker] = None
   \<and> getWorkspacePath (answering [worker] JNull) = (None, Returns JNull)
   \<and> snd (getWorkspacePath (answering [worker] JNull)) \<noteq> Throws noEditor"
  by (simp add: getWorkspacePath_def findEditorTarget_def answering_def selectEditor_def
      isEditor_def worker_def)

text \<open>
  Claim C3, amended. Selection returns the first target that is a page, has
  \<open>Antigravity\<close> and not \<open>Launchpad\<close> in its title and not \<open>devtools\<close> in its URL; without
  such a target, the first page; without a page, nothing, and then every command throws
  \<open>No editor target found\<close>, except getWorkspacePath, which returns \<open>null\<close>. Of the pages
  \<open>MyProject - Antigravity\<close> and \<open>Antigravity - Launchpad\<close> the former is selected, in
  either order.
\<close>

theorem editor_target_selection:
  "(i < length targets \<and> isEditor (targets ! i) \<and> (\<forall>j<i. \<not> isEditor (targets ! j))
      \<longrightarrow> selectEditor targets = Some (targets ! i))
   \<and> ((\<forall>u\<in>set targets. \<not> isEditor u) \<and> i < length targets \<and> ttype (targets ! i) = ''page''
        \<and> (\<forall>j<i. ttype (targets ! j) \<noteq> ''page'')
      \<longrightarrow> selectEditor targets = Some (targets ! i))
   \<and> ((\<forall>t\<in>set targets. ttype t \<noteq> ''page'') \<and> jsonList r = Inr targets
      \<longrightarrow> selectEditor targets = None
          \<and> captureScreenshot opts r = (None, Throws noEditor)
          \<and> getPageMetrics r = (None, Throws noEditor)
          \<and> injectCommand txt r = (None, Throws noEditor)
          \<and> injectAndSubmit txt r = (None, Throws noEditor)
          \<and> focusInput r = (None, Throws noEditor)
          \<and> getChatMessages r = (None, Throws noEditor)
          \<and> getAgentPanelContent r = (None, Throws noEditor)
          \<and> getConversationText r = (None, Throws noEditor)
          \<and> getWorkspacePath r = (None, Returns JNull))
   \<and> selectEditor [page1, page2] = Some page1
   \<and> selectEditor [page2, page1] = Some page1"
proof -
  have "selectEditor [page1, page2] = Some page1" "selectEditor [page2, page1] = Some page1"
    by (simp_all add: selectEditor_def isEditor_def page1_def page2_def)
  then show ?thesis
    using selectEditor_preferred[of i targets] selectEditor_fallback[of targets i]
      no_page_commands[of r targets] selectEditor_None[of targets]
    by simp
qed

theorem editor_target_selection_witness:
  "selectEditor [worker, page2, page1] = Some page1
   \<and> selectEditor [worker, page2] = Some page2
   \<and> selectEditor [worker] = None
   \<and> getPageMetrics (answering [worker] JNull) = (None, Throws noEditor)
   \<and> getWorkspacePath (answering [worker] JNull) = (None, Returns JNull)"
proof -
  have e: "\<not> isEditor worker" "\<not> isEditor page2" "isEditor page1"
    "ttype worker \<noteq> ''page''" "ttype page2 = ''page''"
    by (simp_all add: isEditor_def worker_def page1_def page2_def)
  have a: "(2::nat) < length [worker, page2, page1] \<and> isEditor ([worker, page2, page1] ! 2)
           \<and> (\<forall>j<2. \<not> isEditor ([worker, page2, page1] ! j))"
    using e by (simp add: less_Suc_eq numeral_2_eq_2)
  have b: "(\<forall>u\<in>set [worker, page2]. \<not> isEditor u) \<and> (1::nat) < length [worker, page2]
           \<and> ttype ([worker, page2] ! 1) = ''page''
           \<and> (\<forall>j<1. ttype ([worker, page2] ! j) \<noteq> ''page'')"
    using e by simp
  have c: "(\<forall>t\<in>set [worker]. ttype t \<noteq> ''page'')
           \<and> jsonList (answering [worker] JNull) = Inr [worker]"
    using e by (simp add: answering_def)
  show ?thesis
    using editor_target_selection[of 2 "[worker, page2, page1]"] a
      editor_target_selection[of 1 "[worker, page2]"] b
      editor_target_selection[of 0 "[worker]" "answering [worker] JNull"] c
    by simp
qed

section \<open>The availability check\<close>

text \<open>
  Claim C6. \<open>isAvailable\<close> returns a value for every answer of the version query and never
  throws: \<open>{available: true, browser: version.Browser}\<close> when the query yields a version
  record, and \<open>{available: false, error: message}\<close> when \<open>getVersion\<close> fails (as on an
  unreachable endpoint) or the record is \<open>null\<close>.
\<close>

theorem isAvailable_never_raises:
  "(\<forall>e. isAvailable r \<noteq> Throws e) \<and> isAvailable r \<noteq> NeverSettles
   \<and> isAvailable r =
       (case jsonVersion r of
          Inl e \<Rightarrow> Returns (JObj [(''available'', JBool False), (''error'', messageOf e)])
        | Inr version \<Rightarrow>
            if version = JUndefined \<or> version = JNull
            then Returns (JObj [(''available'', JBool False), (''error'', messageOf (typeError version ''Browser''))])
            else Returns (JObj [(''available'', JBool True),
                                (''browser'', member version ''Browser'')]))"
  by (simp add: isAvailable_def tryCatch_def andThen_def getVersion_def getProp_def throws_def
      returns_def split: sum.splits)

theorem isAvailable_never_raises_witness:
  "isAvailable (rejecting [] ''unused'') =
     Returns (JObj [(''available'', JBool False), (''error'', JStr ''fetch failed'')])
   \<and> isAvailable (answering [] JNull) =
     Returns (JObj [(''available'', JBool True), (''browser'', JStr ''Chrome/120.0.0.0'')])"
  using isAvailable_never_raises[of "rejecting [] ''unused''"]
    isAvailable_never_raises[of "answering [] JNull"]
  by (simp add: rejecting_def answering_def messageOf_def field_def)

section \<open>The screenshot request\<close>

lemma member_options: "member (if opts = JUndefined then JObj [] else opts) k = member opts k"
  by (simp add: field_def)

lemma firstRequest_close: "wire s \<noteq> [] \<Longrightarrow> firstRequest (close s) = firstRequest s"
  by (cases "wire s") (simp_all add: firstRequest_def close_def)

lemma captureScreenshot_firstRequest:
  assumes "captureScreenshot opts r = (Some s, c)" "opts \<noteq> JNull"
  shows "firstRequest s =
           JObj [(''id'', JNum 1), (''method'', JStr ''Page.captureScreenshot''),
                 (''params'',
                  JObj [(''format'', if truthy (member opts ''format'')
                                     then member opts ''format'' else JStr ''png''),
                        (''quality'', if truthy (member opts ''quality'')
                                      then member opts ''quality'' else JNum 80),
                        (''captureBeyondViewport'', JBool False)])]"
proof -
  let ?options = "if opts = JUndefined then JObj [] else opts"
  let ?params = "JObj [(''format'', orElse (member opts ''format'') (JStr ''png'')),
                       (''quality'', orElse (member opts ''quality'') (JNum 80)),
                       (''captureBeyondViewport'', JBool False)]"
  let ?body = "andThen (awaitSend r ''Page.captureScreenshot'' ?params)
                 (\<lambda>result. getProp result ''data'')"
  have opt: "?options \<noteq> JUndefined" "?options \<noteq> JNull"
    using assms(2) by auto
  from assms(1) obtain target client where
    t: "connectToTarget r target = Inr client"
      "tryFinally
         (andThen (getProp ?options ''format'') (\<lambda>format.
          andThen (getProp ?options ''quality'') (\<lambda>quality.
          andThen (awaitSend r ''Page.captureScreenshot''
                     (JObj [(''format'', orElse format (JStr ''png'')),
                            (''quality'', orElse quality (JNum 80)),
                            (''captureBeyondViewport'', JBool False)])) (\<lambda>result.
          getProp result ''data''))))
         close client = (s, c)"
    unfolding captureScreenshot_def Let_def
    by (auto split: sum.splits option.splits prod.splits)
  have fr: "client = fresh" using t(1) by (rule connect_fresh)
  have body: "tryFinally ?body close fresh = (s, c)"
    using t(2) opt unfolding fr
    by (simp add: tryFinally_def andThen_def getProp_def returns_def member_options
        del: member.simps)
  obtain s2 c2 where a: "awaitSend r ''Page.captureScreenshot'' ?params fresh = (s2, c2)"
    by (cases "awaitSend r ''Page.captureScreenshot'' ?params fresh")
  have w: "wire s2 = [WsSend (JObj [(''id'', JNum 1), (''method'', JStr ''Page.captureScreenshot''),
                                    (''params'', ?params)])]"
    using wire_awaitSend[of r "''Page.captureScreenshot''" ?params fresh] a
    by (simp add: fresh_def)
  have "s = s2 \<or> s = close s2"
    using body a
    by (cases c2)
      (auto simp: tryFinally_def andThen_def getProp_def returns_def throws_def
        split: if_splits)
  then have "firstRequest s = firstRequest s2"
    using firstRequest_close[of s2] w by auto
  then show ?thesis
    using w by (simp add: firstRequest_def orElse_def)
qed

text \<open>
  Claim C10. The request that captureScreenshot sends carries the default for every falsy
  option value, not only for an absent one: \<open>quality: 0\<close> sends quality 80 and
  \<open>format: ""\<close> sends format \<open>png\<close>; a truthy value is sent as it is.
\<close>

theorem screenshot_defaults_on_falsy:
  assumes "captureScreenshot opts r = (Some s, c)" and "opts \<noteq> JNull"
  shows "member (member (firstRequest s) ''params'') ''format''
           = (if truthy (member opts ''format'') then member opts ''format'' else JStr ''png'')
         \<and> member (member (firstRequest s) ''params'') ''quality''
           = (if truthy (member opts ''quality'') then member opts ''quality'' else JNum 80)
         \<and> member (firstRequest s) ''method'' = JStr ''Page.captureScreenshot''
         \<and> (opts = JObj [(''quality'', JNum 0)]
              \<longrightarrow> member (member (firstRequest s) ''params'') ''quality'' = JNum 80)
         \<and> (opts = JObj [(''format'', JStr [])]
              \<longrightarrow> member (member (firstRequest s) ''params'') ''format'' = JStr ''png'')"
  unfolding captureScreenshot_firstRequest[OF assms]
  by (simp add: field_def)

theorem screenshot_defaults_on_falsy_witness:
  "fst (captureScreenshot (JObj [(''quality'', JNum 0), (''format'', JStr [])])
          (answering [page1] (JObj [(''data'', JStr ''iVBORw0KGgo='')]))) \<noteq> None
   \<and> JObj [(''quality'', JNum 0), (''format'', JStr [])] \<noteq> JNull
   \<and> member (member (firstRequest (the (fst
         (captureScreenshot (JObj [(''quality'', JNum 0), (''format'', JStr [])])
            (answering [page1] (JObj [(''data'', JStr ''iVBORw0KGgo='')]))))))
       ''params'') ''quality'' = JNum 80
   \<and> member (member (firstRequest (the (fst
         (captureScreenshot (JObj [(''quality'', JNum 0), (''format'', JStr [])])
            (answering [page1] (JObj [(''data'', JStr ''iVBORw0KGgo='')]))))))
       ''params'') ''format'' = JStr ''png''"
proof -
  let ?p = "captureScreenshot (JObj [(''quality'', JNum 0), (''format'', JStr [])])
              (answering [page1] (JObj [(''data'', JStr ''iVBORw0KGgo='')]))"
  have a: "fst ?p \<noteq> None"
    by (simp add: captureScreenshot_def facade_defs)
  then have b: "?p = (Some (the (fst ?p)), snd ?p)"
    by (cases ?p) auto
  show ?thesis
    using screenshot_defaults_on_falsy[OF b] a
    by (simp add: field_def)
qed

section \<open>The text classifier\<close>

lemma dropWhile_trimmed_end:
  assumes "xs \<noteq> []" "\<not> P (hd xs)"
  shows "dropWhile P (rev (dropWhile P (rev xs))) = rev (dropWhile P (rev xs))"
proof -
  obtain x ys where xs: "xs = x # ys" using assms(1) by (cases xs) auto
  then have x: "\<not> P x" using assms(2) by simp
  have "dropWhile P (rev xs) = dropWhile P (rev ys) @ [x]"
    unfolding xs using x by (simp add: dropWhile_append3)
  then show ?thesis using x by simp
qed

lemma dropWhile_rev_dropWhile:
  "dropWhile P (rev (dropWhile P (rev (dropWhile P s)))) = rev (dropWhile P (rev (dropWhile P s)))"
proof (cases "dropWhile P s = []")
  case True
  show ?thesis unfolding True by simp
next
  case False
  then have "\<not> P (hd (dropWhile P s))" by (rule hd_dropWhile)
  with False show ?thesis by (rule dropWhile_trimmed_end)
qed

lemma trim_idem: "trim (trim s) = trim s"
proof -
  have "dropWhile isWhiteSpace (trim s) = trim s"
    unfolding trim_def by (rule dropWhile_rev_dropWhile)
  then show ?thesis
    by (simp add: trim_def)
qed

lemma accepted_iff:
  "accepted raw =
     (let text = trim raw
      in 30 < length text \<and> length text < 5000
         \<and> length (splitOn CHR '' '' text) \<ge> 4
         \<and> \<not> list_ex (\<lambda>p. test p text) blacklist
         \<and> hasProperSentences text \<and> wordCount text > 5)"
  by (auto simp: accepted_def classify_def isBlacklisted_def Let_def trim_idem)

text \<open>
  Claim C4 as stated fails: a text of 21 characters and six words, with sentence
  punctuation and off the blacklist, meets every condition of the claim and is rejected,
  because the classifier also demands more than 30 characters.
\<close>

theorem classifier_length_counterexample:
  "claimedAccepted ''Yes, I can do it now.'' \<and> \<not> accepted ''Yes, I can do it now.''"
  by code_simp

text \<open>
  Claim C4, amended. The visible text of a candidate is accepted if and only if, trimmed,
  it is longer than 30 and shorter than 5000 characters, splits at single spaces into at
  least 4 words, matches no entry of the blacklist, contains \<open>.\<close>, \<open>!\<close> or \<open>?\<close>, and
  splits at whitespace into more than 5 words. \<open>3:45 AM\<close> and \<open>Submit\<close> are rejected, the
  sentence about the malformed input is accepted.
\<close>

theorem classifier_acceptance:
  "accepted raw =
     (let text = trim raw
      in 30 < length text \<and> length text < 5000
         \<and> length (splitOn CHR '' '' text) \<ge> 4
         \<and> \<not> list_ex (\<lambda>p. test p text) blacklist
         \<and> hasProperSentences text \<and> wordCount text > 5)
   \<and> \<not> accepted ''3:45 AM'' \<and> \<not> accepted ''Submit''
   \<and> accepted ''The function failed because the input was malformed, please retry.''"
proof -
  have "\<not> accepted ''3:45 AM''" "\<not> accepted ''Submit''"
    "accepted ''The function failed because the input was malformed, please retry.''"
    by code_simp+
  then show ?thesis
    using accepted_iff[of raw] by simp
qed

lemma startsWith_iff: "startsWith s p = (\<exists>b. s = p @ b)"
  by (induction s p rule: startsWith.induct) auto

lemma includesStr_iff: "includesStr s p = (\<exists>a b. s = a @ p @ b)"
proof (induction s)
  case Nil
  then show ?case by simp
next
  case (Cons c cs)
  show ?case
  proof
    assume "includesStr (c # cs) p"
    then consider "startsWith (c # cs) p" | "includesStr cs p" by auto
    then show "\<exists>a b. c # cs = a @ p @ b"
    proof cases
      case 1
      then obtain b where "c # cs = p @ b" by (auto simp: startsWith_iff)
      then have "c # cs = [] @ p @ b" by simp
      then show ?thesis by blast
    next
      case 2
      then obtain a b where "cs = a @ p @ b" using Cons.IH by auto
      then have "c # cs = (c # a) @ p @ b" by simp
      then show ?thesis by blast
    qed
  next
    assume "\<exists>a b. c # cs = a @ p @ b"
    then obtain a b where ab: "c # cs = a @ p @ b" by blast
    show "includesStr (c # cs) p"
    proof (cases a)
      case Nil
      then have "startsWith (c # cs) p" using ab by (auto simp: startsWith_iff)
      then show ?thesis by simp
    next
      case (Cons x a')
      then have "cs = a' @ p @ b" using ab by simp
      then have "includesStr cs p" using Cons.IH by blast
      then show ?thesis by simp
    qed
  qed
qed

lemma includesStr_dropWhile:
  assumes "includesStr s p" "p \<noteq> []" "\<not> P (hd p)"
  shows "includesStr (dropWhile P s) p"
proof -
  obtain a b where s: "s = a @ p @ b" using assms(1) by (auto simp: includesStr_iff)
  obtain c q where p: "p = c # q" using assms(2) by (cases p) auto
  then have c: "\<not> P c" using assms(3) by simp
  have "dropWhile P s = dropWhile P a @ p @ b"
    unfolding s p using c by (simp add: dropWhile_append3)
  then show ?thesis by (auto simp: includesStr_iff)
qed

lemma includesStr_rev: "includesStr (rev s) (rev p) = includesStr s p"
proof -
  have "(\<exists>a b. rev s = a @ rev p @ b) = (\<exists>a b. s = a @ p @ b)"
  proof
    assume "\<exists>a b. rev s = a @ rev p @ b"
    then obtain a b where "rev s = a @ rev p @ b" by blast
    then have "rev (rev s) = rev (a @ rev p @ b)" by simp
    then have "s = rev b @ p @ rev a" by simp
    then show "\<exists>a b. s = a @ p @ b" by blast
  next
    assume "\<exists>a b. s = a @ p @ b"
    then obtain a b where "s = a @ p @ b" by blast
    then have "rev s = rev b @ rev p @ rev a" by simp
    then show "\<exists>a b. rev s = a @ rev p @ b" by blast
  qed
  then show ?thesis by (simp add: includesStr_iff)
qed

lemma includesStr_trim:
  assumes "includesStr s p" "p \<noteq> []" "\<not> isWhiteSpace (hd p)" "\<not> isWhiteSpace (last p)"
  shows "includesStr (trim s) p"
proof -
  have 1: "includesStr (dropWhile isWhiteSpace s) p"
    using assms(1-3) by (rule includesStr_dropWhile)
  then have "includesStr (rev (dropWhile isWhiteSpace s)) (rev p)"
    by (simp add: includesStr_rev)
  moreover have "rev p \<noteq> []" "\<not> isWhiteSpace (hd (rev p))"
    using assms(2,4) by (simp_all add: hd_rev)
  ultimately have "includesStr (dropWhile isWhiteSpace (rev (dropWhile isWhiteSpace s))) (rev p)"
    by (rule includesStr_dropWhile)
  then have "includesStr (rev (trim s)) (rev p)"
    by (simp add: trim_def)
  then show ?thesis by (simp add: includesStr_rev)
qed

lemma canonChar_whitespace: "isWhiteSpace c \<Longrightarrow> canonChar c = c"
  unfolding isWhiteSpace_def
  by (elim disjE; simp add: canonChar_def)

lemma canonicalize_whitespace: "isWhiteSpace c \<Longrightarrow> canonicalize [c] = [c]"
  by (simp add: canonicalize_def canonChar_whitespace)

lemma canonicalize_append: "canonicalize (a @ b) = canonicalize a @ canonicalize b"
  by (simp add: canonicalize_def)

lemma map_append_split:
  assumes "map f xs = ys @ zs"
  shows "\<exists>us vs. xs = us @ vs \<and> map f us = ys \<and> map f vs = zs"
proof (intro exI conjI)
  show "xs = take (length ys) xs @ drop (length ys) xs" by simp
  show "map f (take (length ys) xs) = ys"
    using assms by (metis append_eq_conv_conj take_map)
  show "map f (drop (length ys) xs) = zs"
    using assms by (metis append_eq_conv_conj drop_map)
qed

lemma canonicalize_split:
  assumes "canonicalize s = A @ Q @ B"
  shows "\<exists>a q b. s = a @ q @ b \<and> canonicalize a = A \<and> canonicalize q = Q \<and> canonicalize b = B"
proof -
  from assms have "map canonChar s = A @ (Q @ B)" by (simp add: canonicalize_def)
  then obtain a r where 1: "s = a @ r" "map canonChar a = A" "map canonChar r = Q @ B"
    using map_append_split by blast
  from 1(3) obtain q b where 2: "r = q @ b" "map canonChar q = Q" "map canonChar b = B"
    using map_append_split by blast
  have "s = a @ q @ b" using 1(1) 2(1) by simp
  then show ?thesis using 1(2) 2(2,3) unfolding canonicalize_def by blast
qed

lemma canonicalize_hd: "q \<noteq> [] \<Longrightarrow> canonicalize [hd q] = [hd (canonicalize q)]"
  by (cases q) (simp_all add: canonicalize_def)

lemma canonicalize_last: "q \<noteq> [] \<Longrightarrow> canonicalize [last q] = [last (canonicalize q)]"
  by (simp add: canonicalize_def last_map)

lemma canonicalize_Nil: "(canonicalize q = []) = (q = [])"
  by (simp add: canonicalize_def)

lemma includesStr_canonicalize_trim:
  assumes "includesStr (canonicalize s) Q" "Q \<noteq> []"
    "\<not> isWhiteSpace (hd Q)" "\<not> isWhiteSpace (last Q)"
  shows "includesStr (canonicalize (trim s)) Q"
proof -
  obtain A B where "canonicalize s = A @ Q @ B"
    using assms(1) by (auto simp: includesStr_iff)
  then obtain a q b where s: "s = a @ q @ b" and q: "canonicalize q = Q"
    using canonicalize_split by blast
  have ne: "q \<noteq> []" using q assms(2) canonicalize_Nil by auto
  have h: "\<not> isWhiteSpace (hd q)"
  proof
    assume "isWhiteSpace (hd q)"
    then have "hd Q = hd q"
      using canonicalize_whitespace[of "hd q"] canonicalize_hd[OF ne] q by simp
    then show False using assms(3) \<open>isWhiteSpace (hd q)\<close> by simp
  qed
  have l: "\<not> isWhiteSpace (last q)"
  proof
    assume "isWhiteSpace (last q)"
    then have "last Q = last q"
      using canonicalize_whitespace[of "last q"] canonicalize_last[OF ne] q by simp
    then show False using assms(4) \<open>isWhiteSpace (last q)\<close> by simp
  qed
  have "includesStr s q" using s by (auto simp: includesStr_iff)
  then have "includesStr (trim s) q" using ne h l by (rule includesStr_trim)
  then obtain a' b' where "trim s = a' @ q @ b'" by (auto simp: includesStr_iff)
  then have "canonicalize (trim s) = canonicalize a' @ Q @ canonicalize b'"
    using q by (simp add: canonicalize_append)
  then show ?thesis by (auto simp: includesStr_iff)
qed

lemma canonicalize_words:
  "canonicalize ''workflows'' = ''WORKFLOWS''" "canonicalize ''mentions'' = ''MENTIONS''"
  by (simp_all add: canonicalize_def canonChar_def)

lemma blacklist_words:
  assumes "includesStr (canonicalize raw) (canonicalize ''workflows'')
           \<or> includesStr (canonicalize raw) (canonicalize ''mentions'')"
  shows "list_ex (\<lambda>p. test p (trim raw)) blacklist"
proof -
  have e: "\<not> isWhiteSpace CHR ''W''" "\<not> isWhiteSpace CHR ''S''" "\<not> isWhiteSpace CHR ''M''"
    by (simp_all add: isWhiteSpace_def)
  from assms show ?thesis
  proof
    assume "includesStr (canonicalize raw) (canonicalize ''workflows'')"
    then have "includesStr (canonicalize raw) ''WORKFLOWS''"
      by (simp only: canonicalize_words)
    then have "includesStr (canonicalize (trim raw)) ''WORKFLOWS''"
      by (rule includesStr_canonicalize_trim) (simp_all add: e)
    then have "test (Contains ''workflows'') (trim raw)"
      by (simp only: test.simps canonicalize_words)
    moreover have "Contains ''workflows'' \<in> set blacklist"
      by (simp add: blacklist_def)
    ultimately show ?thesis unfolding list_ex_iff by blast
  next
    assume "includesStr (canonicalize raw) (canonicalize ''mentions'')"
    then have "includesStr (canonicalize raw) ''MENTIONS''"
      by (simp only: canonicalize_words)
    then have "includesStr (canonicalize (trim raw)) ''MENTIONS''"
      by (rule includesStr_canonicalize_trim) (simp_all add: e)
    then have "test (Contains ''mentions'') (trim raw)"
      by (simp only: test.simps canonicalize_words)
    moreover have "Contains ''mentions'' \<in> set blacklist"
      by (simp add: blacklist_def)
    ultimately show ?thesis unfolding list_ex_iff by blast
  qed
qed

lemma words_rejected:
  assumes "includesStr (canonicalize raw) (canonicalize ''workflows'')
           \<or> includesStr (canonicalize raw) (canonicalize ''mentions'')"
  shows "isBlacklisted raw \<and> isBlacklisted (trim raw) \<and> \<not> accepted raw
         \<and> classify now \<lparr>innerText = Some raw, className = cls\<rparr> = None"
proof -
  have b: "list_ex (\<lambda>p. test p (trim raw)) blacklist"
    using assms by (rule blacklist_words)
  then have "isBlacklisted raw" "isBlacklisted (trim raw)"
    by (simp_all add: isBlacklisted_def Let_def trim_idem)
  then show ?thesis
    by (simp add: accepted_def classify_def Let_def)
qed

text \<open>
  Claim C9. A text that contains \<open>workflows\<close> or \<open>mentions\<close> anywhere, in any letter case,
  is blacklisted and no record is made of it, whatever else it says.
\<close>

theorem unanchored_words_rejected:
  assumes "includesStr (canonicalize raw) (canonicalize ''workflows'')
           \<or> includesStr (canonicalize raw) (canonicalize ''mentions'')"
  shows "isBlacklisted raw \<and> \<not> accepted raw
         \<and> classify now \<lparr>innerText = Some raw, className = cls\<rparr> = None"
  using words_rejected[OF assms, of now cls] by simp

theorem unanchored_words_rejected_witness:
  "includesStr (canonicalize ''Our Workflows guide explains how the nightly build is set up.'')
     (canonicalize ''workflows'')
   \<and> \<not> accepted ''Our Workflows guide explains how the nightly build is set up.''
   \<and> isBlacklisted ''Our Workflows guide explains how the nightly build is set up.''"
proof -
  have h: "includesStr (canonicalize ''Our Workflows guide explains how the nightly build is set up.'')
             (canonicalize ''workflows'')"
    by code_simp
  show ?thesis
    using unanchored_words_rejected[OF disjI1[OF h]] h by simp
qed

section \<open>The scan over the selectors\<close>

lemma scanElements_map_filter:
  "scanElements now els messages = messages @ List.map_filter (classify now) els"
  by (induction els arbitrary: messages) (simp_all add: List.map_filter_simps split: option.splits)

lemma map_filter_empty:
  "(List.map_filter f xs = []) = (\<not> list_ex (\<lambda>x. f x \<noteq> None) xs)"
  by (induction xs) (simp_all add: List.map_filter_simps split: option.splits)

lemma scanSelectors_find:
  "scanSelectors now qsa sels [] =
     (case find (\<lambda>sel. list_ex (\<lambda>el. classify now el \<noteq> None) (qsa sel)) sels of
        None \<Rightarrow> []
      | Some sel \<Rightarrow> List.map_filter (classify now) (qsa sel))"
proof (induction sels)
  case Nil
  then show ?case by simp
next
  case (Cons sel sels)
  show ?case
  proof (cases "list_ex (\<lambda>el. classify now el \<noteq> None) (qsa sel)")
    case True
    then have "List.map_filter (classify now) (qsa sel) \<noteq> []"
      by (simp add: map_filter_empty)
    then show ?thesis
      using True by (simp add: scanElements_map_filter)
  next
    case False
    then have "List.map_filter (classify now) (qsa sel) = []"
      by (simp add: map_filter_empty)
    then show ?thesis
      using False Cons.IH by (simp add: scanElements_map_filter)
  qed
qed

lemma classify_prose:
  "classify now \<lparr>innerText = Some prose, className = ''agent-response''\<rparr>
     = Some \<lparr>role = ''agent'', content = prose, timestamp = now\<rparr>"
proof -
  have "classify [] \<lparr>innerText = Some prose, className = ''agent-response''\<rparr>
     = Some \<lparr>role = ''agent'', content = prose, timestamp = []\<rparr>"
    unfolding prose_def by code_simp
  then show ?thesis
    by (simp add: classify_def Let_def split: if_splits)
qed

lemma classify_submit: "classify now \<lparr>innerText = Some ''Submit'', className = ''button''\<rparr> = None"
proof -
  have "isBlacklisted (trim ''Submit'')" by code_simp
  then show ?thesis by (simp add: classify_def Let_def)
qed

text \<open>
  Claim C8 as stated fails: the first selector yields a candidate, \<open>Submit\<close>, which is
  rejected, and the scan goes on to the second selector and returns its record.
\<close>

theorem scan_stops_at_candidates_counterexample:
  "examplePage ''.conversation-content'' \<noteq> []
   \<and> claimedScan ''2026-01-01T00:00:00.000Z'' examplePage conversationSelectors = []
   \<and> chatMessages ''2026-01-01T00:00:00.000Z'' examplePage
       = [\<lparr>role = ''agent'', content = prose, timestamp = ''2026-01-01T00:00:00.000Z''\<rparr>]"
  by (simp add: examplePage_def conversationSelectors_def chatMessages_def classify_prose
      classify_submit)

text \<open>
  Claim C8, amended. The scan stops at the first selector, in the order of the list, for
  which at least one candidate is accepted, and returns the records of that selector
  alone; a selector whose candidates are all rejected does not stop it, and without an
  accepting selector the result is empty.
\<close>

theorem scan_stops_at_first_accepting_selector:
  "chatMessages now qsa =
     (case find (\<lambda>sel. list_ex (\<lambda>el. classify now el \<noteq> None) (qsa sel))
             conversationSelectors of
        None \<Rightarrow> []
      | Some sel \<Rightarrow> List.map_filter (classify now) (qsa sel))"
  unfolding chatMessages_def by (rule scanSelectors_find)

section \<open>The workspace locator\<close>

lemma workspace_unix_example:
  "workspaceSnippet Some sourceTab = found ''/Users/alice/MyProject/src/index.ts'' ''tab'' False
   \<and> projectNameOf ''MyProject - Antigravity'' = Some ''MyProject''
   \<and> workspaceOf ''/Users/alice/MyProject/src/index.ts'' False (Some ''MyProject'')
       = ''/Users/alice/MyProject''
   \<and> workspaceOf ''/Users/alice/MyProject/src/index.ts'' False None
       = ''/Users/alice/MyProject/src''"
  by code_simp

text \<open>
  Claim C7, where the code departs from it. A tab labelled \<open>Preview: README.md\<close> makes
  the snippet report the Windows path \<open>w: README.md\<close>, a single segment. No segment is the
  project name, and the fallback does not return the path without its last segment: it
  reads \<open>parentParts[0]\<close> of an empty array and returns the text \<open>undefined\<close> followed by
  a backslash.
\<close>

theorem workspace_single_segment_fallback:
  "workspaceSnippet Some previewTab = found ''w: README.md'' ''tab'' True
   \<and> projectNameOf (title page1) = Some ''MyProject''
   \<and> workspaceOf ''w: README.md'' True (Some ''MyProject'') = ''undefined'' @ [CHR 0x5C]
   \<and> snd (getWorkspacePath (answering [page1] (evaluated (workspaceSnippet Some previewTab))))
       = Returns (JStr (''undefined'' @ [CHR 0x5C]))"
  by code_simp

end
